theory Spec2Isabelle
  imports Main "HOL-Library.Word"
begin

section \<open>The download helper script\<close>

text \<open>
  The program is the single script \<^verbatim>\<open>src/download_helper.py\<close>: one HTTP GET for a fixed
  URL, a status check, and a loop that writes the chunks of the response body to the file
  \<^verbatim>\<open>public/yolov8n.onnx\<close>, all inside one \<^verbatim>\<open>try\<close> with two \<^verbatim>\<open>except\<close> clauses.

  Everything the script does is an effect, so the model passes an explicit \<open>world\<close>
  (the destination file, the number of open handles on it, the console, and the log of
  the calls made to the network and to the file system) and reads the
  behaviour of the network and of the file system from an \<open>env\<close>: what the GET returns or
  raises, and whether \<^verbatim>\<open>open\<close>, each \<^verbatim>\<open>write\<close> and the closing of the file raise.
  Exceptions are values: every function that can raise returns the exception next to the
  world it leaves behind.
\<close>

subsection \<open>Bytes, exceptions, iterators\<close>

type_synonym byte = "8 word"
type_synonym bytes = "byte list"

text \<open>
  The exception classes the two \<^verbatim>\<open>except\<close> clauses distinguish. In the requests library
  \<^verbatim>\<open>RequestException\<close> is a subclass of \<^verbatim>\<open>IOError\<close> (an alias of \<^verbatim>\<open>OSError\<close>), so a
  \<open>RequestException\<close> is an instance of both; \<open>OSError\<close> stands for an \<^verbatim>\<open>IOError\<close> that is not
  a \<^verbatim>\<open>RequestException\<close>, \<open>OtherException\<close> for an exception of neither class. The string is
  what \<^verbatim>\<open>str(e)\<close> gives.
\<close>

datatype exn = RequestException string | OSError string | OtherException string

fun is_RequestException :: "exn \<Rightarrow> bool" where
  "is_RequestException (RequestException _) = True"
| "is_RequestException (OSError _) = False"
| "is_RequestException (OtherException _) = False"

fun is_IOError :: "exn \<Rightarrow> bool" where
  "is_IOError (RequestException _) = True"
| "is_IOError (OSError _) = True"
| "is_IOError (OtherException _) = False"

fun str :: "exn \<Rightarrow> string" where
  "str (RequestException m) = m"
| "str (OSError m) = m"
| "str (OtherException m) = m"

text \<open>
  The generator that \<^verbatim>\<open>response.iter_content\<close> returns: it stops, yields a chunk and goes
  on, or raises (a connection that breaks while the body is being read).
\<close>

datatype iterator = StopIteration | Yield bytes iterator | Raise exn

definition yields :: "bytes list \<Rightarrow> iterator \<Rightarrow> iterator" where
  "yields cs rest = foldr Yield cs rest"

definition of_chunks :: "bytes list \<Rightarrow> iterator" where
  "of_chunks cs = yields cs StopIteration"

subsection \<open>The response, the environment, the world\<close>

record response =
  status_code :: nat
  reason :: string
  response_url :: string
  iter_content :: "nat \<Rightarrow> iterator"

record env =
  requests_get :: "string \<Rightarrow> exn + response"
  open_result :: "exn option"
  write_result :: "nat \<Rightarrow> exn option"
  close_result :: "exn option"

datatype call = Get string | Open | Write bytes | Close

record world =
  dest_file :: "bytes option"
  open_handles :: nat
  calls :: "call list"
  console :: "string list"

text \<open>
  \<open>dest_file\<close> is the contents of \<^verbatim>\<open>public/yolov8n.onnx\<close> (\<open>None\<close> when the file does not
  exist). \<open>calls\<close> records every call in the order it is made, whether it returns or
  raises. \<open>write_result env k\<close> is the outcome of the \<open>k\<close>-th call of \<^verbatim>\<open>f.write\<close>, counted from
  0. Writes are not buffered in the model: a write appends its whole chunk or raises and
  appends nothing, and closing does not change the contents. The writer of the program is
  buffered, so the contents of the model are those of the program on the runs in which no
  write and no closing raises.
\<close>

subsection \<open>The library calls\<close>

definition digits :: string where
  "digits = ''0123456789''"

function str_nat :: "nat \<Rightarrow> string" where
  "str_nat n = (if n < 10 then [digits ! n] else str_nat (n div 10) @ [digits ! (n mod 10)])"
  by pat_completeness auto
termination
  by (relation "measure id") auto

declare str_nat.simps [simp del]

text \<open>\<^verbatim>\<open>Response.raise_for_status\<close> of requests: an \<^verbatim>\<open>HTTPError\<close> for 4xx and 5xx.\<close>

definition raise_for_status :: "response \<Rightarrow> exn option" where
  "raise_for_status r =
     (if 400 \<le> status_code r \<and> status_code r < 500 then
        Some (RequestException
          (str_nat (status_code r) @ '' Client Error: '' @ reason r @ '' for url: '' @ response_url r))
      else if 500 \<le> status_code r \<and> status_code r < 600 then
        Some (RequestException
          (str_nat (status_code r) @ '' Server Error: '' @ reason r @ '' for url: '' @ response_url r))
      else None)"

text \<open>
  A body that arrives whole, read in pieces of \<open>c\<close> bytes (the last one may be shorter).
  The script only ever passes 8192; a chunk size of 0 is outside what is modelled.
\<close>

function split_chunks :: "nat \<Rightarrow> bytes \<Rightarrow> bytes list" where
  "split_chunks c bs =
     (if c = 0 \<or> bs = [] then [] else take c bs # split_chunks c (drop c bs))"
  by pat_completeness auto
termination
  by (relation "measure (\<lambda>(c, bs). length bs)") auto

declare split_chunks.simps [simp del]

definition full_response :: "nat \<Rightarrow> string \<Rightarrow> bytes \<Rightarrow> response" where
  "full_response st rs body =
     \<lparr>status_code = st, reason = rs, response_url = ''https://media.roboflow.com/yolov8n.onnx'',
      iter_content = (\<lambda>c. of_chunks (split_chunks c body))\<rparr>"

definition print :: "string \<Rightarrow> world \<Rightarrow> world" where
  "print s w = w\<lparr>console := console w @ [s]\<rparr>"

text \<open>\<^verbatim>\<open>open("public/yolov8n.onnx", "wb")\<close>: creates the file or truncates it.\<close>

definition record_call :: "call \<Rightarrow> world \<Rightarrow> world" where
  "record_call c w = w\<lparr>calls := calls w @ [c]\<rparr>"

definition get :: "env \<Rightarrow> string \<Rightarrow> world \<Rightarrow> world \<times> (exn + response)" where
  "get env u w = (record_call (Get u) w, requests_get env u)"

definition open_wb :: "env \<Rightarrow> world \<Rightarrow> world \<times> (exn + unit)" where
  "open_wb env w =
     (case open_result env of
        Some e \<Rightarrow> (record_call Open w, Inl e)
      | None \<Rightarrow>
          (record_call Open (w\<lparr>dest_file := Some [], open_handles := Suc (open_handles w)\<rparr>),
           Inr ()))"

definition f_write :: "env \<Rightarrow> nat \<Rightarrow> bytes \<Rightarrow> world \<Rightarrow> world \<times> (exn + unit)" where
  "f_write env k chunk w =
     (case write_result env k of
        Some e \<Rightarrow> (record_call (Write chunk) w, Inl e)
      | None \<Rightarrow>
          (record_call (Write chunk)
             (w\<lparr>dest_file := map_option (\<lambda>bs. bs @ chunk) (dest_file w)\<rparr>),
           Inr ()))"

text \<open>Closing releases the handle also when it raises.\<close>

definition f_close :: "env \<Rightarrow> world \<Rightarrow> world \<times> exn option" where
  "f_close env w = (record_call Close (w\<lparr>open_handles := open_handles w - 1\<rparr>), close_result env)"

subsection \<open>The script\<close>

definition url :: string where
  "url = ''https://media.roboflow.com/yolov8n.onnx''"

text \<open>\<^verbatim>\<open>for chunk in response.iter_content(...): f.write(chunk)\<close>\<close>

fun for_loop :: "env \<Rightarrow> nat \<Rightarrow> iterator \<Rightarrow> world \<Rightarrow> world \<times> exn option" where
  "for_loop env k StopIteration w = (w, None)"
| "for_loop env k (Raise e) w = (w, Some e)"
| "for_loop env k (Yield chunk rest) w =
     (case f_write env k chunk w of
        (w', Inl e) \<Rightarrow> (w', Some e)
      | (w', Inr _) \<Rightarrow> for_loop env (Suc k) rest w')"

text \<open>
  The \<^verbatim>\<open>with open(...) as f:\<close> block: the file is closed when the block is left, by its
  end or by an exception; an exception of the closing replaces the one of the block.
\<close>

definition with_open :: "nat \<Rightarrow> response \<Rightarrow> env \<Rightarrow> world \<Rightarrow> world \<times> exn option" where
  "with_open chunk_size resp env w =
     (case open_wb env w of
        (w1, Inl e) \<Rightarrow> (w1, Some e)
      | (w1, Inr _) \<Rightarrow>
          (case for_loop env 0 (iter_content resp chunk_size) w1 of
             (w2, r) \<Rightarrow>
               (case f_close env w2 of
                  (w3, Some e) \<Rightarrow> (w3, Some e)
                | (w3, None) \<Rightarrow> (w3, r))))"

definition try_block :: "nat \<Rightarrow> env \<Rightarrow> world \<Rightarrow> world \<times> exn option" where
  "try_block chunk_size env w =
     (case get env url w of
        (w0, Inl e) \<Rightarrow> (w0, Some e)
      | (w0, Inr resp) \<Rightarrow>
          (case raise_for_status resp of
             Some e \<Rightarrow> (w0, Some e)
           | None \<Rightarrow>
               (case with_open chunk_size resp env w0 of
                  (w1, Some e) \<Rightarrow> (w1, Some e)
                | (w1, None) \<Rightarrow> (print ''Model downloaded and saved successfully.'' w1, None))))"

text \<open>
  The whole script with the chunk size as a parameter: the \<^verbatim>\<open>try\<close> block, then the two
  \<^verbatim>\<open>except\<close> clauses in the order of the source. The second component of the result is the
  exception that leaves the script uncaught, if any.
\<close>

definition download_helper :: "nat \<Rightarrow> env \<Rightarrow> world \<Rightarrow> world \<times> exn option" where
  "download_helper chunk_size env w =
     (case try_block chunk_size env w of
        (w1, None) \<Rightarrow> (w1, None)
      | (w1, Some e) \<Rightarrow>
          if is_RequestException e then
            (print (''Error downloading the model: '' @ str e) w1, None)
          else if is_IOError e then
            (print (''Error writing the model to file: '' @ str e) w1, None)
          else (w1, Some e))"

text \<open>The script as it is written: \<^verbatim>\<open>chunk_size=8192\<close>.\<close>

definition script :: "env \<Rightarrow> world \<Rightarrow> world \<times> exn option" where
  "script = download_helper 8192"

subsection \<open>Concrete environments\<close>

text \<open>
  \<open>served resp\<close> is an environment in which the server answers \<open>resp\<close> and the file
  system works; \<open>fresh_world\<close> is a world where the destination file does not exist yet;
  \<open>broken_response\<close> is a response with status 200 whose connection breaks after the first
  chunk; \<open>unreachable\<close> is an environment in which the GET cannot connect.
\<close>

definition served :: "response \<Rightarrow> env" where
  "served resp =
     \<lparr>requests_get = (\<lambda>u. Inr resp), open_result = None,
      write_result = (\<lambda>k. None), close_result = None\<rparr>"

definition fresh_world :: world where
  "fresh_world = \<lparr>dest_file = None, open_handles = 0, calls = [], console = []\<rparr>"

definition broken_response :: response where
  "broken_response =
     \<lparr>status_code = 200, reason = ''OK'',
      response_url = ''https://media.roboflow.com/yolov8n.onnx'',
      iter_content = (\<lambda>c. Yield [1, 2] (Raise (RequestException ''Connection broken'')))\<rparr>"

definition unreachable :: env where
  "unreachable =
     \<lparr>requests_get = (\<lambda>u. Inl (RequestException ''Connection refused'')), open_result = None,
      write_result = (\<lambda>k. None), close_result = None\<rparr>"

section \<open>Properties\<close>

subsection \<open>The loop and the chunks\<close>

lemma for_loop_yields:
  "\<forall>j < length cs. write_result env (k + j) = None \<Longrightarrow>
   for_loop env k (yields cs rest) w =
     for_loop env (k + length cs) rest
       (w\<lparr>dest_file := map_option (\<lambda>bs. bs @ concat cs) (dest_file w),
          calls := calls w @ map Write cs\<rparr>)"
proof (induction cs arbitrary: k w)
  case Nil
  show ?case by (simp add: yields_def option.map_ident)
next
  case (Cons c cs)
  from Cons.prems have w0: "write_result env k = None" by force
  from Cons.prems have "\<forall>j < length cs. write_result env (Suc k + j) = None" by force
  from Cons.IH [OF this] w0 show ?case
    by (simp add: yields_def f_write_def record_call_def option.map_comp comp_def)
qed

lemma for_loop_of_chunks:
  assumes "\<forall>j. write_result env j = None"
  shows "for_loop env 0 (of_chunks cs) w =
           (w\<lparr>dest_file := map_option (\<lambda>bs. bs @ concat cs) (dest_file w),
              calls := calls w @ map Write cs\<rparr>, None)"
  using for_loop_yields [of cs env 0 StopIteration w] assms by (simp add: of_chunks_def)

lemma for_loop_frame:
  "for_loop env k it w = (w', r) \<Longrightarrow>
   open_handles w' = open_handles w \<and> console w' = console w \<and>
   (\<exists>ws. calls w' = calls w @ map Write ws)"
proof (induction it arbitrary: k w)
  case StopIteration
  then show ?case by auto
next
  case (Yield chunk rest)
  show ?case
  proof (cases "write_result env k")
    case None
    with Yield.prems have "for_loop env (Suc k) rest
        (record_call (Write chunk) (w\<lparr>dest_file := map_option (\<lambda>bs. bs @ chunk) (dest_file w)\<rparr>)) = (w', r)"
      by (simp add: f_write_def)
    from Yield.IH [OF this] obtain ws where
      "open_handles w' = open_handles w" "console w' = console w"
      "calls w' = calls w @ map Write (chunk # ws)"
      by (auto simp: record_call_def)
    then show ?thesis by blast
  next
    case (Some e)
    with Yield.prems have "w' = record_call (Write chunk) w" by (simp add: f_write_def)
    then have "calls w' = calls w @ map Write [chunk]" "open_handles w' = open_handles w" "console w' = console w"
      by (simp_all add: record_call_def)
    then show ?thesis by blast
  qed
next
  case (Raise e)
  then show ?case by auto
qed

lemma concat_split_chunks: "0 < c \<Longrightarrow> concat (split_chunks c bs) = bs"
proof (induction c bs rule: split_chunks.induct)
  case (1 c bs)
  then show ?case by (subst split_chunks.simps) auto
qed

lemma split_chunks_Nil: "split_chunks c [] = []"
  by (simp add: split_chunks.simps)

subsection \<open>The success path\<close>

lemma with_open_all_ok:
  assumes "open_result env = None" "\<forall>k. write_result env k = None"
    and "iter_content resp c = of_chunks cs"
  shows "with_open c resp env w =
           (w\<lparr>dest_file := Some (concat cs),
              calls := calls w @ Open # map Write cs @ [Close]\<rparr>, close_result env)"
  using assms
  by (cases "close_result env")
     (simp_all add: with_open_def open_wb_def f_close_def record_call_def for_loop_of_chunks)

lemma try_block_all_ok:
  assumes "requests_get env url = Inr resp" "raise_for_status resp = None"
    and "open_result env = None" "\<forall>k. write_result env k = None"
    and "iter_content resp c = of_chunks cs"
  shows "dest_file (fst (try_block c env w)) = Some (concat cs)"
  using assms(1,2) with_open_all_ok [OF assms(3,4,5)]
  by (cases "close_result env")
     (simp_all add: try_block_def get_def record_call_def print_def)

lemma download_helper_dest_file:
  "dest_file (fst (download_helper c env w)) = dest_file (fst (try_block c env w))"
  by (cases "try_block c env w")
     (auto simp: download_helper_def print_def split: option.splits)

text \<open>
  C1. When the GET returns a response whose status passes the check, the iterator yields
  the chunks \<open>cs\<close> and stops, and the file opens and takes every write, the destination
  file ends up holding the body, that is the concatenation of the chunks, byte for byte;
  its length is the sum of the lengths of the chunks.
\<close>

theorem success_path_file_equals_body:
  assumes "requests_get env url = Inr resp" and "raise_for_status resp = None"
    and "iter_content resp 8192 = of_chunks cs"
    and "open_result env = None" and "\<forall>k. write_result env k = None"
  shows "dest_file (fst (script env w)) = Some (concat cs) \<and>
         map_option length (dest_file (fst (script env w))) = Some (sum_list (map length cs))"
  using try_block_all_ok [OF assms(1,2,4,5,3), of w]
  by (simp add: script_def download_helper_dest_file length_concat)

lemma served_simps:
  "requests_get (served r) u = Inr r" "open_result (served r) = None"
  "write_result (served r) k = None" "close_result (served r) = None"
  by (simp_all add: served_def)

lemma raise_for_status_full_response:
  "st < 400 \<Longrightarrow> raise_for_status (full_response st rs body) = None"
  by (simp add: raise_for_status_def full_response_def)

theorem success_path_file_equals_body_witness:
  "dest_file (fst (script (served (full_response 200 ''OK'' [1, 2, 3])) fresh_world)) = Some [1, 2, 3] \<and>
   map_option length (dest_file (fst (script (served (full_response 200 ''OK'' [1, 2, 3])) fresh_world)))
     = Some 3"
proof -
  have "iter_content (full_response 200 ''OK'' [1, 2, 3]) 8192 = of_chunks [[1, 2, 3]]"
    by (simp add: full_response_def split_chunks.simps)
  from success_path_file_equals_body [of "served (full_response 200 ''OK'' [1, 2, 3])" _ "[[1, 2, 3]]" fresh_world,
      OF _ _ this]
  show ?thesis by (simp add: served_simps raise_for_status_full_response)
qed

subsection \<open>Frame properties of the try block\<close>

lemma with_open_frame:
  assumes "with_open c resp env w = (w1, r)"
  shows "open_handles w1 = open_handles w \<and> console w1 = console w"
proof (cases "open_result env")
  case (Some e)
  with assms show ?thesis by (auto simp: with_open_def open_wb_def record_call_def)
next
  case None
  obtain w2 r2 where fl: "for_loop env 0 (iter_content resp c)
      (record_call Open (w\<lparr>dest_file := Some [], open_handles := Suc (open_handles w)\<rparr>)) = (w2, r2)"
    by (cases "for_loop env 0 (iter_content resp c)
      (record_call Open (w\<lparr>dest_file := Some [], open_handles := Suc (open_handles w)\<rparr>))")
  from for_loop_frame [OF fl] have "open_handles w2 = Suc (open_handles w)" "console w2 = console w"
    by (simp_all add: record_call_def)
  moreover from assms None fl have "w1 = record_call Close (w2\<lparr>open_handles := open_handles w2 - 1\<rparr>)"
    by (auto simp: with_open_def open_wb_def f_close_def split: option.splits)
  ultimately show ?thesis by (simp add: record_call_def)
qed

lemma try_block_handles: "open_handles (fst (try_block c env w)) = open_handles w"
proof (cases "requests_get env url")
  case (Inl e)
  then show ?thesis by (simp add: try_block_def get_def record_call_def)
next
  case (Inr resp)
  show ?thesis
  proof (cases "raise_for_status resp")
    case (Some e)
    with Inr show ?thesis by (simp add: try_block_def get_def record_call_def)
  next
    case None
    obtain w1 r where wo: "with_open c resp env (record_call (Get url) w) = (w1, r)"
      by (cases "with_open c resp env (record_call (Get url) w)")
    from with_open_frame [OF wo] have "open_handles w1 = open_handles w"
      by (simp add: record_call_def)
    with Inr None wo show ?thesis
      by (cases r) (simp_all add: try_block_def get_def print_def)
  qed
qed

lemma try_block_console:
  assumes "try_block c env w = (w1, r)"
  shows "console w1 = console w @ (case r of None \<Rightarrow> [''Model downloaded and saved successfully.''] | Some e \<Rightarrow> [])"
proof (cases "requests_get env url")
  case (Inl e)
  with assms show ?thesis by (auto simp: try_block_def get_def record_call_def)
next
  case (Inr resp)
  show ?thesis
  proof (cases "raise_for_status resp")
    case (Some e)
    with Inr assms show ?thesis
      by (auto simp: try_block_def get_def record_call_def split: option.splits)
  next
    case None
    obtain w2 r2 where wo: "with_open c resp env (record_call (Get url) w) = (w2, r2)"
      by (cases "with_open c resp env (record_call (Get url) w)")
    from with_open_frame [OF wo] have "console w2 = console w"
      by (simp add: record_call_def)
    with Inr None wo assms show ?thesis
      by (cases r2) (auto simp: try_block_def get_def print_def)
  qed
qed

lemma download_helper_handles: "open_handles (fst (download_helper c env w)) = open_handles w"
  using try_block_handles [of c env w]
  by (cases "try_block c env w")
     (auto simp: download_helper_def print_def split: option.splits)

subsection \<open>The HTTP failure\<close>

text \<open>
  C2. When the server answers with a 4xx or 5xx status, \<^verbatim>\<open>raise_for_status\<close> raises before
  the destination file is opened: the only call made is the GET, so the file and the open
  handles are what they were, the network-error message with the description of the HTTP
  error is printed, and no exception leaves the script.
\<close>

theorem http_failure_leaves_file_untouched:
  assumes "requests_get env url = Inr resp"
    and "400 \<le> status_code resp" and "status_code resp < 600"
  shows "\<exists>m. raise_for_status resp = Some (RequestException m) \<and>
             script env w =
               (w\<lparr>calls := calls w @ [Get url],
                  console := console w @ [''Error downloading the model: '' @ m]\<rparr>, None)"
  using assms
  by (simp add: script_def download_helper_def try_block_def get_def record_call_def
        raise_for_status_def print_def)

theorem http_failure_leaves_file_untouched_witness:
  "script (served (full_response 404 ''Not Found'' [1])) fresh_world =
     (fresh_world\<lparr>calls := [Get url],
        console := [''Error downloading the model: 404 Client Error: Not Found for url: https://media.roboflow.com/yolov8n.onnx'']\<rparr>,
      None)"
proof -
  have st: "status_code (full_response 404 ''Not Found'' [1]) = 404"
    by (simp add: full_response_def)
  have "raise_for_status (full_response 404 ''Not Found'' [1]) =
      Some (RequestException ''404 Client Error: Not Found for url: https://media.roboflow.com/yolov8n.onnx'')"
    by (simp add: raise_for_status_def full_response_def str_nat.simps digits_def)
  with http_failure_leaves_file_untouched
    [of "served (full_response 404 ''Not Found'' [1])" "full_response 404 ''Not Found'' [1]" fresh_world]
  show ?thesis by (simp add: served_simps st fresh_world_def)
qed

subsection \<open>Chunk sizes\<close>

text \<open>
  C3. For a body that arrives whole and a file system that takes every write, the
  destination file the script leaves with any positive chunk size is the one it leaves
  with the chunk size 8192 of the source.
\<close>

theorem chunking_transparency:
  assumes "0 < c" and "requests_get env url = Inr (full_response st rs body)"
    and "\<forall>k. write_result env k = None"
  shows "dest_file (fst (download_helper c env w)) = dest_file (fst (script env w))"
proof -
  let ?resp = "full_response st rs body"
  have eq: "dest_file (fst (try_block c env w)) = dest_file (fst (try_block 8192 env w))"
  proof (cases "raise_for_status ?resp")
    case (Some e)
    with assms(2) show ?thesis by (simp add: try_block_def get_def)
  next
    case None
    show ?thesis
    proof (cases "open_result env")
      case (Some e)
      with None assms(2) show ?thesis
        by (simp add: try_block_def get_def with_open_def open_wb_def)
    next
      case op: None
      have it: "iter_content ?resp n = of_chunks (split_chunks n body)" for n
        by (simp add: full_response_def)
      have "dest_file (fst (try_block n env w)) = Some (concat (split_chunks n body))" for n
        by (rule try_block_all_ok [OF assms(2) None op assms(3) it])
      then show ?thesis using assms(1) by (simp add: concat_split_chunks)
    qed
  qed
  then show ?thesis by (simp add: script_def download_helper_dest_file)
qed

theorem chunking_transparency_witness:
  "dest_file (fst (download_helper 2 (served (full_response 200 ''OK'' [1, 2, 3, 4, 5])) fresh_world))
     = dest_file (fst (script (served (full_response 200 ''OK'' [1, 2, 3, 4, 5])) fresh_world)) \<and>
   dest_file (fst (download_helper 2 (served (full_response 200 ''OK'' [1, 2, 3, 4, 5])) fresh_world))
     = Some [1, 2, 3, 4, 5] \<and>
   split_chunks 2 [1, 2, 3, 4, 5 :: byte] = [[1, 2], [3, 4], [5]] \<and>
   split_chunks 8192 [1, 2, 3, 4, 5 :: byte] = [[1, 2, 3, 4, 5]]"
proof -
  have 1: "split_chunks 2 [1, 2, 3, 4, 5 :: byte] = [[1, 2], [3, 4], [5]]"
    by (simp add: split_chunks.simps)
  have 2: "split_chunks 8192 [1, 2, 3, 4, 5 :: byte] = [[1, 2, 3, 4, 5]]"
    by (simp add: split_chunks.simps)
  have 3: "dest_file (fst (script (served (full_response 200 ''OK'' [1, 2, 3, 4, 5])) fresh_world))
     = Some [1, 2, 3, 4, 5]"
    by (simp add: script_def download_helper_def try_block_def get_def with_open_def open_wb_def
          f_close_def f_write_def record_call_def print_def served_def full_response_def
          raise_for_status_def of_chunks_def yields_def 2 fresh_world_def)
  from chunking_transparency
    [of 2 "served (full_response 200 ''OK'' [1, 2, 3, 4, 5])" 200 "''OK''" "[1, 2, 3, 4, 5]" fresh_world]
  have "dest_file (fst (download_helper 2 (served (full_response 200 ''OK'' [1, 2, 3, 4, 5])) fresh_world))
     = dest_file (fst (script (served (full_response 200 ''OK'' [1, 2, 3, 4, 5])) fresh_world))"
    by (simp add: served_simps)
  with 1 2 3 show ?thesis by simp
qed

subsection \<open>The empty body\<close>

text \<open>
  C10. When the status passes the check and the iterator yields no chunk, the file is
  still opened, which creates or truncates it, and closed: it ends up with zero bytes, and
  the success message is printed.
\<close>

theorem empty_body_creates_empty_file:
  assumes "requests_get env url = Inr resp" and "raise_for_status resp = None"
    and "iter_content resp 8192 = StopIteration"
    and "open_result env = None" and "close_result env = None"
  shows "script env w =
           (w\<lparr>dest_file := Some [], calls := calls w @ [Get url, Open, Close],
              console := console w @ [''Model downloaded and saved successfully.'']\<rparr>, None)"
  using assms
  by (simp add: script_def download_helper_def try_block_def get_def with_open_def open_wb_def
        f_close_def record_call_def print_def)

theorem empty_body_creates_empty_file_witness:
  "iter_content (full_response 200 ''OK'' []) 8192 = StopIteration \<and>
   script (served (full_response 200 ''OK'' [])) fresh_world =
     (\<lparr>dest_file = Some [], open_handles = 0, calls = [Get url, Open, Close],
       console = [''Model downloaded and saved successfully.'']\<rparr>, None)"
proof -
  have it: "iter_content (full_response 200 ''OK'' []) 8192 = StopIteration"
    by (simp add: full_response_def split_chunks_Nil of_chunks_def yields_def)
  from empty_body_creates_empty_file
    [of "served (full_response 200 ''OK'' [])" "full_response 200 ''OK'' []" fresh_world, OF _ _ it]
  show ?thesis using it by (simp add: served_simps raise_for_status_full_response fresh_world_def)
qed

subsection \<open>Running twice\<close>

text \<open>
  C7. Against an unchanged remote body and a working file system, the destination file
  holds the body after the first run and again after a second run started from the world
  the first one left: the second run truncates the file and writes the same bytes.
\<close>

theorem second_run_same_contents:
  assumes "requests_get env url = Inr (full_response st rs body)"
    and "raise_for_status (full_response st rs body) = None"
    and "open_result env = None" and "\<forall>k. write_result env k = None"
  shows "dest_file (fst (script env w)) = Some body \<and>
         dest_file (fst (script env (fst (script env w)))) = Some body"
proof -
  have it: "iter_content (full_response st rs body) 8192 = of_chunks (split_chunks 8192 body)"
    by (simp add: full_response_def)
  have "dest_file (fst (script env v)) = Some body" for v
    using try_block_all_ok [OF assms(1,2,3,4) it, of v]
    by (simp add: script_def download_helper_dest_file concat_split_chunks)
  then show ?thesis by simp
qed

theorem second_run_same_contents_witness:
  "dest_file (fst (script (served (full_response 200 ''OK'' [7, 8, 9])) 
      (fresh_world\<lparr>dest_file := Some [0, 0, 0, 0, 0]\<rparr>))) = Some [7, 8, 9] \<and>
   dest_file (fst (script (served (full_response 200 ''OK'' [7, 8, 9]))
      (fst (script (served (full_response 200 ''OK'' [7, 8, 9]))
         (fresh_world\<lparr>dest_file := Some [0, 0, 0, 0, 0]\<rparr>))))) = Some [7, 8, 9]"
  using second_run_same_contents
    [of "served (full_response 200 ''OK'' [7, 8, 9])" 200 "''OK''" "[7, 8, 9]"
        "fresh_world\<lparr>dest_file := Some [0, 0, 0, 0, 0]\<rparr>"]
  by (simp add: served_simps raise_for_status_full_response)

subsection \<open>The file handle\<close>

lemma with_open_calls:
  assumes "open_result env = None"
  shows "\<exists>ws. calls (fst (with_open c resp env w)) = calls w @ Open # map Write ws @ [Close]"
proof -
  let ?w1 = "record_call Open (w\<lparr>dest_file := Some [], open_handles := Suc (open_handles w)\<rparr>)"
  obtain w2 r2 where fl: "for_loop env 0 (iter_content resp c) ?w1 = (w2, r2)"
    by (cases "for_loop env 0 (iter_content resp c) ?w1")
  from for_loop_frame [OF fl] obtain ws where "calls w2 = calls w @ Open # map Write ws"
    by (auto simp: record_call_def)
  moreover from assms fl have "fst (with_open c resp env w) =
      record_call Close (w2\<lparr>open_handles := open_handles w2 - 1\<rparr>)"
    by (auto simp: with_open_def open_wb_def f_close_def split: option.splits)
  ultimately have "calls (fst (with_open c resp env w)) = calls w @ Open # map Write ws @ [Close]"
    by (simp add: record_call_def)
  then show ?thesis by blast
qed

text \<open>
  C5. On every path through the script the number of open handles at the end is the
  number at the start; and whenever the file was opened, the calls of the run are the GET,
  the open, some writes and then the close, which is the last call, whether the
  loop completed or raised.
\<close>

theorem file_handle_released:
  "open_handles (fst (download_helper c env w)) = open_handles w \<and>
   (requests_get env url = Inr resp \<and> raise_for_status resp = None \<and> open_result env = None \<longrightarrow>
      (\<exists>ws. calls (fst (download_helper c env w)) =
             calls w @ Get url # Open # map Write ws @ [Close]))"
proof (intro conjI impI)
  show "open_handles (fst (download_helper c env w)) = open_handles w"
    by (rule download_helper_handles)
next
  assume a: "requests_get env url = Inr resp \<and> raise_for_status resp = None \<and> open_result env = None"
  let ?w0 = "record_call (Get url) w"
  from a with_open_calls [of env c resp ?w0] obtain ws where
    ws: "calls (fst (with_open c resp env ?w0)) = calls w @ Get url # Open # map Write ws @ [Close]"
    by (auto simp: record_call_def)
  have "calls (fst (try_block c env w)) = calls (fst (with_open c resp env ?w0))"
    using a by (cases "with_open c resp env ?w0")
      (auto simp: try_block_def get_def print_def split: option.splits)
  moreover have "calls (fst (download_helper c env w)) = calls (fst (try_block c env w))"
    by (cases "try_block c env w")
       (auto simp: download_helper_def print_def split: option.splits)
  ultimately show "\<exists>ws. calls (fst (download_helper c env w)) =
             calls w @ Get url # Open # map Write ws @ [Close]"
    using ws by auto
qed

lemma script_broken:
  "script (served broken_response) fresh_world =
     (\<lparr>dest_file = Some [1, 2], open_handles = 0,
       calls = [Get url, Open, Write [1, 2], Close],
       console = [''Error downloading the model: Connection broken'']\<rparr>, None)"
  by (simp add: script_def download_helper_def try_block_def get_def with_open_def open_wb_def
        f_close_def f_write_def record_call_def print_def served_def broken_response_def
        raise_for_status_def fresh_world_def)

theorem file_handle_released_witness:
  "open_handles (fst (download_helper 8192 (served broken_response) fresh_world)) = 0 \<and>
   calls (fst (download_helper 8192 (served broken_response) fresh_world)) =
     [Get url, Open, Write [1, 2], Close]"
proof -
  have "raise_for_status broken_response = None"
    by (simp add: raise_for_status_def broken_response_def)
  with file_handle_released [of 8192 "served broken_response" fresh_world broken_response]
  have "open_handles (fst (download_helper 8192 (served broken_response) fresh_world)) = 0"
    and "\<exists>ws. calls (fst (download_helper 8192 (served broken_response) fresh_world)) =
            Get url # Open # map Write ws @ [Close]"
    by (simp_all add: served_simps fresh_world_def)
  moreover have "calls (fst (download_helper 8192 (served broken_response) fresh_world)) =
     [Get url, Open, Write [1, 2], Close]"
    using script_broken by (simp add: script_def)
  ultimately show ?thesis by simp
qed

subsection \<open>The I/O failure\<close>

text \<open>
  C6. When the response passes the status check and opening the file raises an I/O error,
  or a write raises one after some chunks were written, the script prints the file-write
  error message with the description of the error, and no exception leaves it.
\<close>

theorem io_failure_reported:
  assumes "requests_get env url = Inr resp" and "raise_for_status resp = None"
    and "open_result env = Some (OSError m) \<or>
         (open_result env = None \<and> iter_content resp 8192 = yields cs (Yield chunk rest) \<and>
          (\<forall>j < length cs. write_result env j = None) \<and>
          write_result env (length cs) = Some (OSError m) \<and> close_result env = None)"
  shows "snd (script env w) = None \<and>
         console (fst (script env w)) = console w @ [''Error writing the model to file: '' @ m]"
  using assms(3)
proof
  assume "open_result env = Some (OSError m)"
  with assms(1,2) show ?thesis
    by (simp add: script_def download_helper_def try_block_def get_def with_open_def open_wb_def
        record_call_def print_def)
next
  assume a: "open_result env = None \<and> iter_content resp 8192 = yields cs (Yield chunk rest) \<and>
          (\<forall>j < length cs. write_result env j = None) \<and>
          write_result env (length cs) = Some (OSError m) \<and> close_result env = None"
  then have "\<forall>j < length cs. write_result env (0 + j) = None" by simp
  from for_loop_yields [OF this, of "Yield chunk rest"] a
  have "snd (for_loop env 0 (iter_content resp 8192) v) = Some (OSError m) \<and>
        console (fst (for_loop env 0 (iter_content resp 8192) v)) = console v" for v
    by (simp add: f_write_def record_call_def)
  then have "snd (with_open 8192 resp env v) = Some (OSError m) \<and>
        console (fst (with_open 8192 resp env v)) = console v" for v
    using a by (simp add: with_open_def open_wb_def f_close_def record_call_def split_beta)
  from this [of "record_call (Get url) w"] assms(1,2) show ?thesis
    by (cases "with_open 8192 resp env (record_call (Get url) w)")
       (simp add: script_def download_helper_def try_block_def get_def record_call_def print_def)
qed

theorem io_failure_reported_witness:
  "snd (script ((served (full_response 200 ''OK'' [1, 2, 3]))
         \<lparr>open_result := Some (OSError ''No such file or directory'')\<rparr>) fresh_world) = None \<and>
   console (fst (script ((served (full_response 200 ''OK'' [1, 2, 3]))
         \<lparr>open_result := Some (OSError ''No such file or directory'')\<rparr>) fresh_world)) =
     [''Error writing the model to file: No such file or directory''] \<and>
   snd (script ((served (full_response 200 ''OK'' [1, 2, 3]))
         \<lparr>write_result := (\<lambda>k. Some (OSError ''No space left on device''))\<rparr>) fresh_world) = None \<and>
   console (fst (script ((served (full_response 200 ''OK'' [1, 2, 3]))
         \<lparr>write_result := (\<lambda>k. Some (OSError ''No space left on device''))\<rparr>) fresh_world)) =
     [''Error writing the model to file: No space left on device'']"
proof -
  let ?r = "full_response 200 ''OK'' [1, 2, 3]"
  have it: "iter_content ?r 8192 = yields [] (Yield [1, 2, 3] StopIteration)"
    by (simp add: full_response_def split_chunks.simps of_chunks_def yields_def)
  have st: "raise_for_status ?r = None" by (simp add: raise_for_status_full_response)
  from io_failure_reported
    [of "(served ?r)\<lparr>open_result := Some (OSError ''No such file or directory'')\<rparr>" ?r
        "''No such file or directory''" _ _ _ fresh_world, OF _ st]
  have 1: "snd (script ((served ?r) \<lparr>open_result := Some (OSError ''No such file or directory'')\<rparr>)
              fresh_world) = None \<and>
    console (fst (script ((served ?r) \<lparr>open_result := Some (OSError ''No such file or directory'')\<rparr>)
              fresh_world)) = [''Error writing the model to file: No such file or directory'']"
    by (simp add: served_def fresh_world_def)
  from io_failure_reported
    [of "(served ?r)\<lparr>write_result := (\<lambda>k. Some (OSError ''No space left on device''))\<rparr>" ?r
        "''No space left on device''" "[]" "[1, 2, 3]" StopIteration fresh_world, OF _ st] it
  have 2: "snd (script ((served ?r) \<lparr>write_result := (\<lambda>k. Some (OSError ''No space left on device''))\<rparr>)
              fresh_world) = None \<and>
    console (fst (script ((served ?r) \<lparr>write_result := (\<lambda>k. Some (OSError ''No space left on device''))\<rparr>)
              fresh_world)) = [''Error writing the model to file: No space left on device'']"
    by (simp add: served_def fresh_world_def)
  from 1 2 show ?thesis by simp
qed

subsection \<open>Failures of the streaming phase\<close>

text \<open>
  C4 as stated fails: a connection that breaks after the status check, while the chunks
  are read, raises a \<^verbatim>\<open>RequestException\<close> out of the iterator, inside the \<^verbatim>\<open>with\<close> block, and
  the first \<^verbatim>\<open>except\<close> clause reports it with the network-error message.
\<close>

theorem streaming_failure_counterexample:
  "requests_get (served broken_response) url = Inr broken_response \<and>
   raise_for_status broken_response = None \<and>
   snd (with_open 8192 broken_response (served broken_response) (record_call (Get url) fresh_world))
     = Some (RequestException ''Connection broken'') \<and>
   console (fst (script (served broken_response) fresh_world))
     = [''Error downloading the model: Connection broken''] \<and>
   console (fst (script (served broken_response) fresh_world))
     \<noteq> [''Error writing the model to file: Connection broken'']"
proof -
  have "snd (with_open 8192 broken_response (served broken_response) (record_call (Get url) fresh_world))
     = Some (RequestException ''Connection broken'')"
    by (simp add: with_open_def open_wb_def f_close_def f_write_def record_call_def served_def
          broken_response_def)
  moreover have "raise_for_status broken_response = None"
    by (simp add: raise_for_status_def broken_response_def)
  ultimately show ?thesis by (simp add: script_broken served_simps)
qed

text \<open>
  C4, amended. The message is chosen by the class of the exception, not by the phase. A
  \<^verbatim>\<open>RequestException\<close> raised by the GET, or the HTTP error of the status check, gives the
  network-error message. An exception that leaves the \<^verbatim>\<open>with\<close> block gives the network-error
  message when it is a \<^verbatim>\<open>RequestException\<close>, and the file-write message when it is an
  \<^verbatim>\<open>IOError\<close> that is not a \<^verbatim>\<open>RequestException\<close>.
\<close>

theorem failure_reported_by_exception_class:
  "(requests_get env url = Inl e \<and> is_RequestException e \<longrightarrow>
      script env w = (print (''Error downloading the model: '' @ str e) (record_call (Get url) w), None)) \<and>
   (requests_get env url = Inr resp \<and> raise_for_status resp = Some e \<longrightarrow>
      script env w = (print (''Error downloading the model: '' @ str e) (record_call (Get url) w), None)) \<and>
   (requests_get env url = Inr resp \<and> raise_for_status resp = None \<and>
    with_open 8192 resp env (record_call (Get url) w) = (w1, Some e) \<longrightarrow>
      (is_RequestException e \<longrightarrow>
         script env w = (print (''Error downloading the model: '' @ str e) w1, None)) \<and>
      (is_IOError e \<and> \<not> is_RequestException e \<longrightarrow>
         script env w = (print (''Error writing the model to file: '' @ str e) w1, None)))"
proof (intro conjI impI)
  assume "requests_get env url = Inl e \<and> is_RequestException e"
  then show "script env w =
      (print (''Error downloading the model: '' @ str e) (record_call (Get url) w), None)"
    by (simp add: script_def download_helper_def try_block_def get_def)
next
  assume "requests_get env url = Inr resp \<and> raise_for_status resp = Some e"
  moreover from this have "is_RequestException e"
    by (auto simp: raise_for_status_def split: if_splits)
  ultimately show "script env w =
      (print (''Error downloading the model: '' @ str e) (record_call (Get url) w), None)"
    by (simp add: script_def download_helper_def try_block_def get_def)
next
  assume "requests_get env url = Inr resp \<and> raise_for_status resp = None \<and>
    with_open 8192 resp env (record_call (Get url) w) = (w1, Some e)"
    and "is_RequestException e"
  then show "script env w = (print (''Error downloading the model: '' @ str e) w1, None)"
    by (simp add: script_def download_helper_def try_block_def get_def)
next
  assume "requests_get env url = Inr resp \<and> raise_for_status resp = None \<and>
    with_open 8192 resp env (record_call (Get url) w) = (w1, Some e)"
    and "is_IOError e \<and> \<not> is_RequestException e"
  then show "script env w = (print (''Error writing the model to file: '' @ str e) w1, None)"
    by (simp add: script_def download_helper_def try_block_def get_def)
qed

theorem failure_reported_by_exception_class_witness:
  "console (fst (script unreachable fresh_world)) =
     [''Error downloading the model: Connection refused''] \<and>
   console (fst (script (served (full_response 500 ''Internal Server Error'' [])) fresh_world)) =
     [''Error downloading the model: 500 Server Error: Internal Server Error for url: https://media.roboflow.com/yolov8n.onnx''] \<and>
   console (fst (script (served broken_response) fresh_world)) =
     [''Error downloading the model: Connection broken''] \<and>
   console (fst (script ((served broken_response)\<lparr>open_result := Some (OSError ''Permission denied'')\<rparr>)
      fresh_world)) = [''Error writing the model to file: Permission denied'']"
proof -
  let ?r5 = "full_response 500 ''Internal Server Error'' []"
  let ?e5 = "RequestException ''500 Server Error: Internal Server Error for url: https://media.roboflow.com/yolov8n.onnx''"
  let ?denied = "(served broken_response)\<lparr>open_result := Some (OSError ''Permission denied'')\<rparr>"
  have 1: "console (fst (script unreachable fresh_world)) =
     [''Error downloading the model: Connection refused'']"
    using failure_reported_by_exception_class
      [of unreachable "RequestException ''Connection refused''" fresh_world]
    by (simp add: unreachable_def fresh_world_def print_def record_call_def)
  have "raise_for_status ?r5 = Some ?e5"
    by (simp add: raise_for_status_def full_response_def str_nat.simps digits_def)
  then have 2: "console (fst (script (served ?r5) fresh_world)) = [''Error downloading the model: '' @ str ?e5]"
    using failure_reported_by_exception_class [of "served ?r5" ?e5 fresh_world ?r5]
    by (simp add: served_simps fresh_world_def print_def record_call_def)
  have st: "raise_for_status broken_response = None"
    by (simp add: raise_for_status_def broken_response_def)
  have wo: "with_open 8192 broken_response (served broken_response) (record_call (Get url) fresh_world) =
     (\<lparr>dest_file = Some [1, 2], open_handles = 0, calls = [Get url, Open, Write [1, 2], Close],
       console = []\<rparr>, Some (RequestException ''Connection broken''))"
    by (simp add: with_open_def open_wb_def f_close_def f_write_def record_call_def served_def
          broken_response_def fresh_world_def)
  have 3: "console (fst (script (served broken_response) fresh_world)) =
     [''Error downloading the model: Connection broken'']"
    using failure_reported_by_exception_class
      [of "served broken_response" "RequestException ''Connection broken''" fresh_world
          broken_response, THEN conjunct2, THEN conjunct2] st wo
    by (simp add: served_simps print_def)
  have wd: "with_open 8192 broken_response ?denied (record_call (Get url) fresh_world) =
     (\<lparr>dest_file = None, open_handles = 0, calls = [Get url, Open], console = []\<rparr>,
      Some (OSError ''Permission denied''))"
    by (simp add: with_open_def open_wb_def record_call_def served_def fresh_world_def)
  have 4: "console (fst (script ?denied fresh_world)) =
     [''Error writing the model to file: Permission denied'']"
    using failure_reported_by_exception_class
      [of ?denied "OSError ''Permission denied''" fresh_world
          broken_response, THEN conjunct2, THEN conjunct2] st wd
    by (simp add: served_def print_def)
  from 1 2 3 4 show ?thesis by simp
qed

subsection \<open>The two handlers\<close>

lemma with_open_calls_no_get:
  "\<exists>fs. calls (fst (with_open c resp env w)) = calls w @ fs \<and> (\<forall>u. Get u \<notin> set fs)"
proof (cases "open_result env")
  case (Some e)
  then have "calls (fst (with_open c resp env w)) = calls w @ [Open]"
    by (simp add: with_open_def open_wb_def record_call_def)
  then show ?thesis by auto
next
  case None
  from with_open_calls [OF None, of c resp w] obtain ws where
    "calls (fst (with_open c resp env w)) = calls w @ (Open # map Write ws @ [Close])" by auto
  moreover have "\<forall>u. Get u \<notin> set (Open # map Write ws @ [Close])" by auto
  ultimately show ?thesis by blast
qed

lemma try_block_calls:
  "\<exists>fs. calls (fst (try_block c env w)) = calls w @ Get url # fs \<and> (\<forall>u. Get u \<notin> set fs)"
proof (cases "requests_get env url")
  case (Inl e)
  then show ?thesis by (simp add: try_block_def get_def record_call_def)
next
  case (Inr resp)
  show ?thesis
  proof (cases "raise_for_status resp")
    case (Some e)
    with Inr show ?thesis by (simp add: try_block_def get_def record_call_def)
  next
    case None
    from with_open_calls_no_get [of c resp env "record_call (Get url) w"] obtain fs where
      fs: "calls (fst (with_open c resp env (record_call (Get url) w))) = calls w @ Get url # fs"
        "\<forall>u. Get u \<notin> set fs"
      by (auto simp: record_call_def)
    have "calls (fst (try_block c env w)) = calls (fst (with_open c resp env (record_call (Get url) w)))"
      using Inr None by (cases "with_open c resp env (record_call (Get url) w)")
        (auto simp: try_block_def get_def print_def split: option.splits)
    with fs show ?thesis by auto
  qed
qed

text \<open>
  C8. Whatever the \<^verbatim>\<open>try\<close> block does: when it raises nothing it has printed the success
  message and nothing else is printed; when it raises an \<^verbatim>\<open>IOError\<close> (a \<^verbatim>\<open>RequestException\<close>
  is one) the script prints exactly one message, the network-error one for a
  \<^verbatim>\<open>RequestException\<close> and the file-write one otherwise, which is not the success message,
  and no exception leaves the script. In every run the GET is called exactly once: there
  is no retry.
\<close>

theorem errors_handled_at_top_level:
  assumes "try_block c env w = (w1, r)"
  shows "(case r of
            None \<Rightarrow>
              download_helper c env w = (w1, None) \<and>
              console w1 = console w @ [''Model downloaded and saved successfully.'']
          | Some e \<Rightarrow>
              is_IOError e \<longrightarrow>
                download_helper c env w =
                  (w1\<lparr>console := console w @
                       [(if is_RequestException e then ''Error downloading the model: ''
                         else ''Error writing the model to file: '') @ str e]\<rparr>, None) \<and>
                (if is_RequestException e then ''Error downloading the model: ''
                 else ''Error writing the model to file: '') @ str e
                  \<noteq> ''Model downloaded and saved successfully.'') \<and>
         (\<exists>fs. calls (fst (download_helper c env w)) = calls w @ Get url # fs \<and>
               (\<forall>u. Get u \<notin> set fs))"
proof -
  from try_block_console [OF assms] have con:
    "console w1 = console w @ (case r of None \<Rightarrow> [''Model downloaded and saved successfully.''] | Some e \<Rightarrow> [])" .
  have "calls (fst (download_helper c env w)) = calls (fst (try_block c env w))"
    by (cases "try_block c env w")
       (auto simp: download_helper_def print_def split: option.splits)
  with try_block_calls [of c env w]
  have 2: "\<exists>fs. calls (fst (download_helper c env w)) = calls w @ Get url # fs \<and>
               (\<forall>u. Get u \<notin> set fs)" by simp
  have 1: "case r of
            None \<Rightarrow>
              download_helper c env w = (w1, None) \<and>
              console w1 = console w @ [''Model downloaded and saved successfully.'']
          | Some e \<Rightarrow>
              is_IOError e \<longrightarrow>
                download_helper c env w =
                  (w1\<lparr>console := console w @
                       [(if is_RequestException e then ''Error downloading the model: ''
                         else ''Error writing the model to file: '') @ str e]\<rparr>, None) \<and>
                (if is_RequestException e then ''Error downloading the model: ''
                 else ''Error writing the model to file: '') @ str e
                  \<noteq> ''Model downloaded and saved successfully.''"
    using assms con by (cases r) (auto simp: download_helper_def print_def)
  from 1 2 show ?thesis by simp
qed

theorem errors_handled_at_top_level_witness:
  "download_helper 8192 unreachable fresh_world =
     (fresh_world\<lparr>calls := [Get url],
        console := [''Error downloading the model: Connection refused'']\<rparr>, None) \<and>
   download_helper 8192 ((served (full_response 200 ''OK'' [1]))
       \<lparr>open_result := Some (OSError ''Permission denied'')\<rparr>) fresh_world =
     (fresh_world\<lparr>calls := [Get url, Open],
        console := [''Error writing the model to file: Permission denied'']\<rparr>, None) \<and>
   download_helper 8192 (served (full_response 200 ''OK'' [1])) fresh_world =
     (\<lparr>dest_file = Some [1], open_handles = 0, calls = [Get url, Open, Write [1], Close],
       console = [''Model downloaded and saved successfully.'']\<rparr>, None)"
proof -
  let ?denied = "(served (full_response 200 ''OK'' [1]))\<lparr>open_result := Some (OSError ''Permission denied'')\<rparr>"
  have t1: "try_block 8192 unreachable fresh_world =
      (fresh_world\<lparr>calls := [Get url]\<rparr>, Some (RequestException ''Connection refused''))"
    by (simp add: try_block_def get_def record_call_def unreachable_def fresh_world_def)
  have t2: "try_block 8192 ?denied fresh_world =
      (fresh_world\<lparr>calls := [Get url, Open]\<rparr>, Some (OSError ''Permission denied''))"
    by (simp add: try_block_def get_def with_open_def open_wb_def record_call_def served_def
          full_response_def raise_for_status_def fresh_world_def)
  have sc: "split_chunks 8192 [1 :: byte] = [[1]]"
    by (simp add: split_chunks.simps)
  have t3: "try_block 8192 (served (full_response 200 ''OK'' [1])) fresh_world =
      (\<lparr>dest_file = Some [1], open_handles = 0, calls = [Get url, Open, Write [1], Close],
        console = [''Model downloaded and saved successfully.'']\<rparr>, None)"
    by (simp add: try_block_def get_def with_open_def open_wb_def f_close_def f_write_def
          record_call_def print_def served_def full_response_def raise_for_status_def
          of_chunks_def yields_def sc fresh_world_def)
  from errors_handled_at_top_level [OF t1] errors_handled_at_top_level [OF t2]
    errors_handled_at_top_level [OF t3]
  show ?thesis by (simp add: fresh_world_def)
qed

subsection \<open>The partial file\<close>

lemma for_loop_file_exists:
  "for_loop env k it w = (w', r) \<Longrightarrow> dest_file w \<noteq> None \<Longrightarrow> dest_file w' \<noteq> None"
proof (induction it arbitrary: k w)
  case StopIteration
  then show ?case by auto
next
  case (Yield chunk rest)
  show ?case
  proof (cases "write_result env k")
    case None
    with Yield.prems(1) have "for_loop env (Suc k) rest
        (record_call (Write chunk) (w\<lparr>dest_file := map_option (\<lambda>bs. bs @ chunk) (dest_file w)\<rparr>)) = (w', r)"
      by (simp add: f_write_def)
    from Yield.IH [OF this] Yield.prems(2) show ?thesis
      by (simp add: record_call_def)
  next
    case (Some e)
    with Yield.prems show ?thesis by (auto simp: f_write_def record_call_def)
  qed
next
  case (Raise e)
  then show ?case by auto
qed

lemma with_open_file_exists:
  assumes "open_result env = None"
  shows "dest_file (fst (with_open c resp env w)) \<noteq> None"
proof -
  let ?w1 = "record_call Open (w\<lparr>dest_file := Some [], open_handles := Suc (open_handles w)\<rparr>)"
  obtain w2 r2 where fl: "for_loop env 0 (iter_content resp c) ?w1 = (w2, r2)"
    by (cases "for_loop env 0 (iter_content resp c) ?w1")
  have "dest_file ?w1 \<noteq> None" by (simp add: record_call_def)
  from for_loop_file_exists [OF fl this] have "dest_file w2 \<noteq> None" .
  moreover from assms fl have "fst (with_open c resp env w) =
      record_call Close (w2\<lparr>open_handles := open_handles w2 - 1\<rparr>)"
    by (auto simp: with_open_def open_wb_def f_close_def split: option.splits)
  ultimately show ?thesis by (simp add: record_call_def)
qed

text \<open>
  C9. When the file was opened and the \<^verbatim>\<open>try\<close> block then fails, the handlers change
  nothing but the console: the script ends in the world in which the block was left, with
  at most one message added, so the destination file is still on disk with the contents
  it had when the exception was raised, and no call to the file system is made on the
  error path. When the failure is the iterator raising after the chunks \<open>cs\<close> were
  written, and the file closes without error, those contents are the chunks written.
\<close>

theorem partial_file_left_on_failure:
  assumes "requests_get env url = Inr resp" and "raise_for_status resp = None"
    and "open_result env = None"
    and "try_block 8192 env w = (w1, Some e)"
  shows "(\<exists>ms. fst (script env w) = w1\<lparr>console := console w1 @ ms\<rparr>) \<and>
         dest_file (fst (script env w)) = dest_file w1 \<and>
         dest_file w1 \<noteq> None \<and>
         (iter_content resp 8192 = yields cs (Raise e') \<and>
          (\<forall>j < length cs. write_result env j = None) \<and> close_result env = None \<longrightarrow>
            dest_file (fst (script env w)) = Some (concat cs))"
proof (intro conjI impI)
  have "fst (script env w) = w1\<lparr>console := console w1 @ []\<rparr> \<or>
        fst (script env w) = w1\<lparr>console := console w1 @ [''Error downloading the model: '' @ str e]\<rparr> \<or>
        fst (script env w) = w1\<lparr>console := console w1 @ [''Error writing the model to file: '' @ str e]\<rparr>"
    using assms(4) by (simp add: script_def download_helper_def print_def)
  then show "\<exists>ms. fst (script env w) = w1\<lparr>console := console w1 @ ms\<rparr>" by blast
next
  show eq: "dest_file (fst (script env w)) = dest_file w1"
    using assms(4) by (simp add: script_def download_helper_dest_file)
next
  have "dest_file (fst (with_open 8192 resp env (record_call (Get url) w))) \<noteq> None"
    by (rule with_open_file_exists [OF assms(3)])
  moreover have "dest_file (fst (try_block 8192 env w)) =
      dest_file (fst (with_open 8192 resp env (record_call (Get url) w)))"
    using assms(1,2) by (cases "with_open 8192 resp env (record_call (Get url) w)")
      (auto simp: try_block_def get_def print_def split: option.splits)
  ultimately show "dest_file w1 \<noteq> None" using assms(4) by simp
next
  assume a: "iter_content resp 8192 = yields cs (Raise e') \<and>
          (\<forall>j < length cs. write_result env j = None) \<and> close_result env = None"
  then have "\<forall>j < length cs. write_result env (0 + j) = None" by simp
  from for_loop_yields [OF this, of "Raise e'"] a
  have "for_loop env 0 (iter_content resp 8192) v =
      (v\<lparr>dest_file := map_option (\<lambda>bs. bs @ concat cs) (dest_file v),
         calls := calls v @ map Write cs\<rparr>, Some e')" for v
    by simp
  then have "dest_file (fst (with_open 8192 resp env v)) = Some (concat cs)" for v
    using a assms(3) by (simp add: with_open_def open_wb_def f_close_def record_call_def)
  from this [of "record_call (Get url) w"] assms(1,2)
  have "dest_file (fst (try_block 8192 env w)) = Some (concat cs)"
    by (cases "with_open 8192 resp env (record_call (Get url) w)")
       (auto simp: try_block_def get_def print_def split: option.splits)
  then show "dest_file (fst (script env w)) = Some (concat cs)"
    by (simp add: script_def download_helper_dest_file)
qed

theorem partial_file_left_on_failure_witness:
  "try_block 8192 (served broken_response) fresh_world =
     (\<lparr>dest_file = Some [1, 2], open_handles = 0, calls = [Get url, Open, Write [1, 2], Close],
       console = []\<rparr>, Some (RequestException ''Connection broken'')) \<and>
   dest_file (fst (script (served broken_response) fresh_world)) = Some [1, 2] \<and>
   calls (fst (script (served broken_response) fresh_world)) = [Get url, Open, Write [1, 2], Close]"
proof -
  let ?w1 = "\<lparr>dest_file = Some [1, 2], open_handles = 0, calls = [Get url, Open, Write [1, 2], Close],
       console = []\<rparr>"
  have tb: "try_block 8192 (served broken_response) fresh_world =
     (?w1, Some (RequestException ''Connection broken''))"
    by (simp add: try_block_def get_def with_open_def open_wb_def f_close_def f_write_def
          record_call_def served_def broken_response_def raise_for_status_def fresh_world_def)
  have it: "iter_content broken_response 8192 =
      yields [[1, 2]] (Raise (RequestException ''Connection broken''))"
    by (simp add: broken_response_def yields_def)
  have st: "raise_for_status broken_response = None"
    by (simp add: raise_for_status_def broken_response_def)
  from partial_file_left_on_failure
    [of "served broken_response" broken_response fresh_world ?w1
        "RequestException ''Connection broken''" "[[1, 2]]" "RequestException ''Connection broken''",
     OF _ st _ tb] it
  have "(\<exists>ms. fst (script (served broken_response) fresh_world) = ?w1\<lparr>console := console ?w1 @ ms\<rparr>) \<and>
        dest_file (fst (script (served broken_response) fresh_world)) = Some [1, 2]"
    by (simp add: served_simps)
  then obtain ms where "fst (script (served broken_response) fresh_world) = ?w1\<lparr>console := ms\<rparr>"
    and "dest_file (fst (script (served broken_response) fresh_world)) = Some [1, 2]"
    by auto
  with tb show ?thesis by simp
qed

end
